theory Spec2Isabelle
  imports Main "HOL-Library.AList" "HOL-Library.Sublist"
begin

unbundle bit_operations_syntax

section \<open>Values and errors\<close>

text \<open>
  Every structured value the client handles (gallery, tile, annotation, item metadata) is
  the result of decoding JSON, so it is a Python \<open>None\<close>, \<open>bool\<close>, \<open>int\<close>,
  \<open>str\<close>, \<open>list\<close> or \<open>dict\<close> with string keys. A dictionary keeps its insertion
  order, hence an association list. Floating-point numbers do not occur in the operations
  modelled here and are left out of the datatype.
\<close>

datatype json =
    JNull
  | JBool bool
  | JInt int
  | JStr string
  | JList "json list"
  | JDict "(string \<times> json) list"

text \<open>
  The exceptions the modelled code can meet, by their Python names. A function that can
  raise returns \<open>error + 'a\<close>, \<open>Inl\<close> being the exception that leaves it; where it also
  changes the session, the value on the right carries the new session. Calls of the logger
  change nothing that the program reads and are left out.
\<close>

datatype error =
    KeyError
  | IndexError
  | TypeError
  | AttributeError
  | ValueError
  | UnicodeDecodeError
  | UnicodeEncodeError
  | Base64Error
  | UnidentifiedImageError
  | RemoteError

type_synonym bytes = string

type_synonym 'a result = "error + 'a"

definition bind :: "'a result \<Rightarrow> ('a \<Rightarrow> 'b result) \<Rightarrow> 'b result" where
  "bind m f = (case m of Inl e \<Rightarrow> Inl e | Inr x \<Rightarrow> f x)"

section \<open>Emptiness predicate\<close>

text \<open>\<open>obj[key]\<close> for a string key: only a dictionary has string keys.\<close>

definition getitem :: "json \<Rightarrow> string \<Rightarrow> json result" where
  "getitem obj k =
     (case obj of
        JDict d \<Rightarrow> (case map_of d k of None \<Rightarrow> Inl KeyError | Some v \<Rightarrow> Inr v)
      | _ \<Rightarrow> Inl TypeError)"

text \<open>\<open>len(obj)\<close>: defined on strings, lists and dictionaries.\<close>

definition len :: "json \<Rightarrow> nat result" where
  "len obj =
     (case obj of
        JStr s \<Rightarrow> Inr (length s)
      | JList xs \<Rightarrow> Inr (length xs)
      | JDict d \<Rightarrow> Inr (length d)
      | _ \<Rightarrow> Inl TypeError)"

text \<open>
  \<open>is_empty_annotation\<close>: the three operands of \<open>&\<close> are all evaluated, left to
  right, and \<open>&\<close> on two \<open>bool\<close>s is their conjunction.
\<close>

definition is_empty_annotation :: "json \<Rightarrow> bool result" where
  "is_empty_annotation annotation =
     bind (getitem annotation ''spline'') (\<lambda>spline.
     bind (getitem spline ''coordinates'') (\<lambda>coords.
     bind (len coords) (\<lambda>n1.
     bind (getitem annotation ''brushStrokes'') (\<lambda>strokes.
     bind (len strokes) (\<lambda>n2.
     bind (getitem annotation ''boundingBox'') (\<lambda>box.
     bind (getitem box ''coordinates'') (\<lambda>bc.
     bind (getitem bc ''topLeft'') (\<lambda>tl.
     bind (getitem tl ''x'') (\<lambda>x.
       Inr ((n1 = 0 \<and> n2 = 0) \<and> x = JNull))))))))))"

section \<open>Annotation constructors\<close>

text \<open>
  The constructors build plain dictionaries. Python's default arguments are given here as
  constants (\<open>default_space_time_info\<close>, \<open>default_spline\<close>, \<open>default_bounding_box\<close>),
  passed explicitly.
\<close>

definition create_xypoint :: "json \<Rightarrow> json \<Rightarrow> json" where
  "create_xypoint x y = JDict [(''x'', x), (''y'', y)]"

definition default_space_time_info :: json where
  "default_space_time_info = JDict [(''z'', JInt 0), (''t'', JInt 0)]"

definition create_spline :: "json \<Rightarrow> json \<Rightarrow> json \<Rightarrow> json" where
  "create_spline coordinates space_time_info is_closed =
     JDict [(''coordinates'', coordinates), (''spaceTimeInfo'', space_time_info),
            (''isClosed'', is_closed)]"

definition create_bounding_box :: "json \<Rightarrow> json \<Rightarrow> json \<Rightarrow> json" where
  "create_bounding_box top_left bottom_right space_time_info =
     JDict [(''coordinates'', JDict [(''topLeft'', top_left), (''bottomRight'', bottom_right)]),
            (''spaceTimeInfo'', space_time_info)]"

definition default_spline :: json where
  "default_spline = create_spline (JList []) default_space_time_info (JBool False)"

definition default_bounding_box :: json where
  "default_bounding_box =
     create_bounding_box (create_xypoint JNull JNull) (create_xypoint JNull JNull)
       default_space_time_info"

definition create_annotation :: "string \<Rightarrow> json \<Rightarrow> json \<Rightarrow> json \<Rightarrow> json \<Rightarrow> json \<Rightarrow> json" where
  "create_annotation toolbox labels spline bounding_box brush_strokes parameters =
     JDict [(''toolbox'', JStr toolbox), (''labels'', labels), (''spline'', spline),
            (''boundingBox'', bounding_box), (''brushStrokes'', brush_strokes),
            (''parameters'', parameters)]"

section \<open>Content codec\<close>

text \<open>
  A Python \<open>str\<close> is represented by its UTF-8 bytes, so \<open>bytes.decode()\<close> checks
  that the bytes are well-formed UTF-8 (it raises UnicodeDecodeError otherwise) and
  \<open>str.encode()\<close> returns the representation. \<open>utf8_decode\<close> follows the strict
  decoder: no overlong forms, no surrogates, nothing above U+10FFFF.
\<close>

definition is_cont :: "char \<Rightarrow> bool" where
  "is_cont c = (0x80 \<le> (of_char c :: nat) \<and> (of_char c :: nat) \<le> 0xBF)"

definition cont_bits :: "char \<Rightarrow> nat" where
  "cont_bits c = of_char c - 0x80"

fun utf8_decode :: "bytes \<Rightarrow> nat list option" where
  "utf8_decode [] = Some []"
| "utf8_decode (c # cs) =
     (let b = (of_char c :: nat) in
      if b < 0x80 then map_option (Cons b) (utf8_decode cs)
      else if 0xC2 \<le> b \<and> b \<le> 0xDF then
        (case cs of
           c1 # r \<Rightarrow>
             if is_cont c1
             then map_option (Cons ((b - 0xC0) * 64 + cont_bits c1)) (utf8_decode r)
             else None
         | _ \<Rightarrow> None)
      else if 0xE0 \<le> b \<and> b \<le> 0xEF then
        (case cs of
           c1 # c2 # r \<Rightarrow>
             if is_cont c1 \<and> is_cont c2
                \<and> (if b = 0xE0 then 0xA0 \<le> (of_char c1 :: nat) else True)
                \<and> (if b = 0xED then (of_char c1 :: nat) \<le> 0x9F else True)
             then map_option (Cons ((b - 0xE0) * 4096 + cont_bits c1 * 64 + cont_bits c2))
                    (utf8_decode r)
             else None
         | _ \<Rightarrow> None)
      else if 0xF0 \<le> b \<and> b \<le> 0xF4 then
        (case cs of
           c1 # c2 # c3 # r \<Rightarrow>
             if is_cont c1 \<and> is_cont c2 \<and> is_cont c3
                \<and> (if b = 0xF0 then 0x90 \<le> (of_char c1 :: nat) else True)
                \<and> (if b = 0xF4 then (of_char c1 :: nat) \<le> 0x8F else True)
             then map_option
                    (Cons ((b - 0xF0) * 262144 + cont_bits c1 * 4096 + cont_bits c2 * 64
                           + cont_bits c3))
                    (utf8_decode r)
             else None
         | _ \<Rightarrow> None)
      else None)"

definition bytes_decode :: "bytes \<Rightarrow> string result" where
  "bytes_decode b = (case utf8_decode b of None \<Rightarrow> Inl UnicodeDecodeError | Some _ \<Rightarrow> Inr b)"

definition str_encode :: "string \<Rightarrow> bytes" where
  "str_encode s = s"

text \<open>
  The \<open>json\<close> module of the standard library is not part of the repository. Its two
  functions are parameters of the model: \<open>json_loads\<close> returns \<open>None\<close> where
  \<open>json.loads\<close> raises \<open>JSONDecodeError\<close>, and \<open>json_dumps\<close> is
  \<open>json.dumps\<close> with \<open>separators=(",", ":")\<close>.
\<close>

record pylib =
  json_loads :: "string \<Rightarrow> json option"
  json_dumps :: "json \<Rightarrow> string"

text \<open>
  \<open>_decode_content\<close>: only \<open>json.JSONDecodeError\<close> is caught (a warning is logged
  and the function falls off its end, returning \<open>None\<close>); an error of
  \<open>content.decode()\<close> is not.
\<close>

definition decode_content :: "pylib \<Rightarrow> bytes \<Rightarrow> json result" where
  "decode_content lib content =
     bind (bytes_decode content) (\<lambda>text.
       case json_loads lib text of
         None \<Rightarrow> Inr JNull
       | Some v \<Rightarrow> Inr v)"

definition encode_content :: "pylib \<Rightarrow> json \<Rightarrow> bytes" where
  "encode_content lib decoded_content = str_encode (json_dumps lib decoded_content)"

section \<open>A reference instance of the json module\<close>

text \<open>
  Closed examples need a concrete \<open>pylib\<close>. \<open>ref_dumps\<close> writes the compact form
  that \<open>json.dumps\<close> produces with \<open>separators=(",", ":")\<close> and the default
  \<open>ensure_ascii\<close>; \<open>ref_loads\<close> reads JSON text the way \<open>json.loads\<close> does
  (whitespace between tokens, the string escapes, a duplicated key keeps its first position
  and its last value). Two departures, both outside the data used below: numbers with a
  fraction or an exponent and the literals \<open>NaN\<close> and \<open>Infinity\<close> are rejected,
  since \<open>json\<close> has no floating-point values, and so is an escaped lone surrogate.
  The recursion of the parser is bounded by a fuel of twice the length of the text plus two:
  two steps of the recursion read at least one character.
\<close>

definition dq :: char where "dq = CHR 0x22"
definition bsl :: char where "bsl = CHR 0x5C"

definition digit_char :: "nat \<Rightarrow> char" where
  "digit_char n = char_of (48 + n)"

function digits :: "nat \<Rightarrow> string" where
  "digits n = (if n < 10 then [digit_char n] else digits (n div 10) @ [digit_char (n mod 10)])"
  by pat_completeness auto
termination
  by (relation "measure id") auto

definition show_int :: "int \<Rightarrow> string" where
  "show_int i = (if i < 0 then CHR ''-'' # digits (nat (- i)) else digits (nat i))"

definition hex_char :: "nat \<Rightarrow> char" where
  "hex_char n = (if n < 10 then char_of (48 + n) else char_of (87 + n))"

definition hex4 :: "nat \<Rightarrow> string" where
  "hex4 n = [hex_char (n div 4096 mod 16), hex_char (n div 256 mod 16),
             hex_char (n div 16 mod 16), hex_char (n mod 16)]"

definition escape_cp :: "nat \<Rightarrow> string" where
  "escape_cp cp =
     (if cp = 0x22 then [bsl, dq]
      else if cp = 0x5C then [bsl, bsl]
      else if cp = 0x0A then [bsl, CHR ''n'']
      else if cp = 0x0D then [bsl, CHR ''r'']
      else if cp = 0x09 then [bsl, CHR ''t'']
      else if cp = 0x08 then [bsl, CHR ''b'']
      else if cp = 0x0C then [bsl, CHR ''f'']
      else if 0x20 \<le> cp \<and> cp \<le> 0x7E then [char_of cp]
      else if cp < 0x10000 then bsl # CHR ''u'' # hex4 cp
      else bsl # CHR ''u'' # hex4 (0xD800 + (cp - 0x10000) div 1024)
           @ bsl # CHR ''u'' # hex4 (0xDC00 + (cp - 0x10000) mod 1024))"

definition dump_str :: "string \<Rightarrow> string" where
  "dump_str s =
     (case utf8_decode s of
        Some cps \<Rightarrow> dq # concat (map escape_cp cps) @ [dq]
      | None \<Rightarrow> dq # concat (map (\<lambda>c. escape_cp (of_char c)) s) @ [dq])"

fun join :: "string \<Rightarrow> string list \<Rightarrow> string" where
  "join sep [] = []"
| "join sep [x] = x"
| "join sep (x # y # ys) = x @ sep @ join sep (y # ys)"

fun ref_dumps :: "json \<Rightarrow> string" where
  "ref_dumps JNull = ''null''"
| "ref_dumps (JBool b) = (if b then ''true'' else ''false'')"
| "ref_dumps (JInt i) = show_int i"
| "ref_dumps (JStr s) = dump_str s"
| "ref_dumps (JList xs) = ''['' @ join '','' (map ref_dumps xs) @ '']''"
| "ref_dumps (JDict d) =
     ''{'' @ join '','' (map (\<lambda>kv. dump_str (fst kv) @ '':'' @ ref_dumps (snd kv)) d) @ ''}''"


definition is_ws :: "char \<Rightarrow> bool" where
  "is_ws c = (c = CHR '' '' \<or> c = CHR 0x09 \<or> c = CHR 0x0A \<or> c = CHR 0x0D)"

definition skip_ws :: "string \<Rightarrow> string" where
  "skip_ws s = dropWhile is_ws s"

definition is_digit :: "char \<Rightarrow> bool" where
  "is_digit c = (48 \<le> (of_char c :: nat) \<and> (of_char c :: nat) \<le> 57)"

definition hex_val :: "char \<Rightarrow> nat option" where
  "hex_val c =
     (let n = (of_char c :: nat) in
      if 48 \<le> n \<and> n \<le> 57 then Some (n - 48)
      else if 97 \<le> n \<and> n \<le> 102 then Some (n - 87)
      else if 65 \<le> n \<and> n \<le> 70 then Some (n - 55)
      else None)"

definition hex4_val :: "char \<Rightarrow> char \<Rightarrow> char \<Rightarrow> char \<Rightarrow> nat option" where
  "hex4_val a b c d =
     (case (hex_val a, hex_val b, hex_val c, hex_val d) of
        (Some w, Some x, Some y, Some z) \<Rightarrow> Some (w * 4096 + x * 256 + y * 16 + z)
      | _ \<Rightarrow> None)"

definition utf8_encode_cp :: "nat \<Rightarrow> string" where
  "utf8_encode_cp cp =
     (if cp < 0x80 then [char_of cp]
      else if cp < 0x800 then [char_of (0xC0 + cp div 64), char_of (0x80 + cp mod 64)]
      else if cp < 0x10000 then
        [char_of (0xE0 + cp div 4096), char_of (0x80 + cp div 64 mod 64),
         char_of (0x80 + cp mod 64)]
      else
        [char_of (0xF0 + cp div 262144), char_of (0x80 + cp div 4096 mod 64),
         char_of (0x80 + cp div 64 mod 64), char_of (0x80 + cp mod 64)])"

definition simple_escape :: "char \<Rightarrow> char option" where
  "simple_escape e =
     (if e = dq then Some dq
      else if e = bsl then Some bsl
      else if e = CHR ''/'' then Some CHR ''/''
      else if e = CHR ''b'' then Some (CHR 0x08)
      else if e = CHR ''f'' then Some (CHR 0x0C)
      else if e = CHR ''n'' then Some (CHR 0x0A)
      else if e = CHR ''r'' then Some (CHR 0x0D)
      else if e = CHR ''t'' then Some (CHR 0x09)
      else None)"

fun parse_string :: "string \<Rightarrow> (string \<times> string) option" where
  "parse_string [] = None"
| "parse_string (c # cs) =
     (if c = dq then Some ([], cs)
      else if c = bsl then
        (case cs of
           [] \<Rightarrow> None
         | e # r \<Rightarrow>
             if e = CHR ''u'' then
               (case r of
                  h1 # h2 # h3 # h4 # r1 \<Rightarrow>
                    (case hex4_val h1 h2 h3 h4 of
                       None \<Rightarrow> None
                     | Some hi \<Rightarrow>
                         if 0xD800 \<le> hi \<and> hi \<le> 0xDBFF then
                           (case r1 of
                              b1 # u1 # l1 # l2 # l3 # l4 # r2 \<Rightarrow>
                                (case hex4_val l1 l2 l3 l4 of
                                   None \<Rightarrow> None
                                 | Some lo \<Rightarrow>
                                     if b1 = bsl \<and> u1 = CHR ''u'' \<and> 0xDC00 \<le> lo \<and> lo \<le> 0xDFFF
                                     then map_option
                                            (apfst ((@) (utf8_encode_cp
                                               (0x10000 + (hi - 0xD800) * 1024 + (lo - 0xDC00)))))
                                            (parse_string r2)
                                     else None)
                            | _ \<Rightarrow> None)
                         else if 0xDC00 \<le> hi \<and> hi \<le> 0xDFFF then None
                         else map_option (apfst ((@) (utf8_encode_cp hi))) (parse_string r1))
                | _ \<Rightarrow> None)
             else
               (case simple_escape e of
                  None \<Rightarrow> None
                | Some x \<Rightarrow> map_option (apfst (Cons x)) (parse_string r)))
      else if (of_char c :: nat) < 0x20 then None
      else map_option (apfst (Cons c)) (parse_string cs))"

definition parse_int :: "string \<Rightarrow> (int \<times> string) option" where
  "parse_int s =
     (let neg = (case s of [] \<Rightarrow> False | c # _ \<Rightarrow> c = CHR ''-'');
          body = (if neg then tl s else s);
          ds = (case body of
                  [] \<Rightarrow> []
                | c # cs \<Rightarrow> if c = CHR ''0'' then [c] else takeWhile is_digit body);
          n = foldl (\<lambda>a c. 10 * a + (int (of_char c) - 48)) 0 ds
      in if ds = [] then None
         else Some (if neg then - n else n, drop (length ds) body))"

fun parse_value :: "nat \<Rightarrow> string \<Rightarrow> (json \<times> string) option"
  and parse_elems :: "nat \<Rightarrow> string \<Rightarrow> (json list \<times> string) option"
  and parse_members :: "nat \<Rightarrow> string \<Rightarrow> ((string \<times> json) list \<times> string) option"
where
  "parse_value 0 s = None"
| "parse_value (Suc n) s =
     (case s of
        [] \<Rightarrow> None
      | c # cs \<Rightarrow>
          if c = dq then map_option (apfst JStr) (parse_string cs)
          else if c = CHR ''['' then
            (case skip_ws cs of
               [] \<Rightarrow> None
             | d # r \<Rightarrow>
                 if d = CHR '']'' then Some (JList [], r)
                 else map_option (apfst JList) (parse_elems n (d # r)))
          else if c = CHR ''{'' then
            (case skip_ws cs of
               [] \<Rightarrow> None
             | d # r \<Rightarrow>
                 if d = CHR ''}'' then Some (JDict [], r)
                 else map_option
                        (apfst (\<lambda>ps. JDict (fold (\<lambda>kv. AList.update (fst kv) (snd kv)) ps [])))
                        (parse_members n (d # r)))
          else if take 4 s = ''null'' then Some (JNull, drop 4 s)
          else if take 4 s = ''true'' then Some (JBool True, drop 4 s)
          else if take 5 s = ''false'' then Some (JBool False, drop 5 s)
          else map_option (apfst JInt) (parse_int s))"
| "parse_elems 0 s = None"
| "parse_elems (Suc n) s =
     (case parse_value n s of
        None \<Rightarrow> None
      | Some (v, r) \<Rightarrow>
          (case skip_ws r of
             [] \<Rightarrow> None
           | c # r1 \<Rightarrow>
               if c = CHR '','' then
                 map_option (apfst (Cons v)) (parse_elems n (skip_ws r1))
               else if c = CHR '']'' then Some ([v], r1)
               else None))"
| "parse_members 0 s = None"
| "parse_members (Suc n) s =
     (case s of
        [] \<Rightarrow> None
      | q # s1 \<Rightarrow>
          if q \<noteq> dq then None
          else
            (case parse_string s1 of
               None \<Rightarrow> None
             | Some (k, r) \<Rightarrow>
                 (case skip_ws r of
                    [] \<Rightarrow> None
                  | c # r1 \<Rightarrow>
                      if c \<noteq> CHR '':'' then None
                      else
                        (case parse_value n (skip_ws r1) of
                           None \<Rightarrow> None
                         | Some (v, r2) \<Rightarrow>
                             (case skip_ws r2 of
                                [] \<Rightarrow> None
                              | e # r3 \<Rightarrow>
                                  if e = CHR '','' then
                                    map_option (apfst (Cons (k, v)))
                                      (parse_members n (skip_ws r3))
                                  else if e = CHR ''}'' then Some ([(k, v)], r3)
                                  else None)))))"

definition ref_loads :: "string \<Rightarrow> json option" where
  "ref_loads s =
     (case parse_value (2 * length s + 2) (skip_ws s) of
        None \<Rightarrow> None
      | Some (v, r) \<Rightarrow> if skip_ws r = [] then Some v else None)"

definition py :: pylib where
  "py = \<lparr>json_loads = ref_loads, json_dumps = ref_dumps\<rparr>"

section \<open>Project session\<close>

text \<open>
  The Etebase objects, as far as the client uses them. A \<open>collection\<close> is the local copy
  of a remote collection, an \<open>item\<close> the local copy of a remote item. The server keeps
  the collections by uid and the items by the uid of their collection and their own;
  \<open>fetched\<close> records every call of \<open>project_manager.fetch\<close>, in order.
\<close>

record collection =
  c_uid :: string
  c_content :: bytes

record item =
  i_uid :: string
  i_meta :: "(string \<times> json) list"
  i_content :: bytes

text \<open>Class \<open>Project\<close>: the cached collection and the item manager bound to it.\<close>

record Project =
  project :: "collection option"
  item_manager :: "string option"

text \<open>Class \<open>Gliff\<close> together with the server it talks to.\<close>

record gliff =
  gliff_project :: "Project option"
  server_collections :: "string \<rightharpoonup> bytes"
  server_items :: "string \<times> string \<rightharpoonup> item"
  fetched :: "string list"

text \<open>
  \<open>project_manager.fetch(project_uid)\<close> returns the collection of that uid, or raises
  when the server has none.
\<close>

definition fetch_project :: "gliff \<Rightarrow> string \<Rightarrow> (collection \<times> gliff) result" where
  "fetch_project g project_uid =
     (case server_collections g project_uid of
        None \<Rightarrow> Inl RemoteError
      | Some c \<Rightarrow>
          Inr (\<lparr>c_uid = project_uid, c_content = c\<rparr>,
               g\<lparr>fetched := fetched g @ [project_uid]\<rparr>))"

definition fetch_item_manager :: "collection \<Rightarrow> string" where
  "fetch_item_manager c = c_uid c"

definition fetch_project_data :: "gliff \<Rightarrow> string \<Rightarrow> gliff result" where
  "fetch_project_data g project_uid =
     (case gliff_project g of
        None \<Rightarrow> Inl AttributeError
      | Some P \<Rightarrow>
          if (case project P of None \<Rightarrow> True | Some c \<Rightarrow> c_uid c \<noteq> project_uid)
          then bind (fetch_project g project_uid) (\<lambda>(c, g').
                 Inr (g'\<lparr>gliff_project :=
                        Some \<lparr>project = Some c, item_manager = Some (fetch_item_manager c)\<rparr>\<rparr>))
          else Inr g)"

text \<open>The \<open>content\<close> property of \<open>Project\<close>: getter and setter.\<close>

definition get_content :: "gliff \<Rightarrow> bytes option result" where
  "get_content g =
     (case gliff_project g of
        None \<Rightarrow> Inl AttributeError
      | Some P \<Rightarrow> Inr (map_option c_content (project P)))"

definition set_content :: "gliff \<Rightarrow> bytes \<Rightarrow> gliff result" where
  "set_content g new_content =
     (case gliff_project g of
        None \<Rightarrow> Inl AttributeError
      | Some P \<Rightarrow>
          (case project P of
             None \<Rightarrow> Inr g
           | Some c \<Rightarrow>
               Inr (g\<lparr>gliff_project := Some (P\<lparr>project := Some (c\<lparr>c_content := new_content\<rparr>)\<rparr>),
                      server_collections := (server_collections g)(c_uid c \<mapsto> new_content)\<rparr>)))"

definition has_project :: "gliff \<Rightarrow> bool" where
  "has_project g = (gliff_project g \<noteq> None)"

section \<open>Gallery index\<close>

definition create_tile_update :: "json \<Rightarrow> json \<Rightarrow> json \<Rightarrow> json \<Rightarrow> json \<Rightarrow> (string \<times> json) list" where
  "create_tile_update image_labels metadata annotation_uid audit_uid annotation_complete =
     (let tile = [(''fileInfo'', metadata), (''annotationUID'', annotation_uid),
                  (''auditUID'', audit_uid), (''annotationComplete'', annotation_complete)]
      in if image_labels \<noteq> JNull then AList.update ''imageLabels'' image_labels tile else tile)"

definition create_new_tile :: "string \<Rightarrow> string \<Rightarrow> json \<Rightarrow> json \<Rightarrow> json \<Rightarrow> json \<Rightarrow> json \<Rightarrow> json" where
  "create_new_tile image_item_uid thumbnail image_labels metadata annotation_uid audit_uid
       annotation_complete =
     JDict [(''id'', JStr image_item_uid), (''thumbnail'', JStr thumbnail),
            (''imageLabels'', image_labels), (''fileInfo'', metadata),
            (''imageUID'', JStr image_item_uid), (''annotationUID'', annotation_uid),
            (''auditUID'', audit_uid), (''annotationComplete'', annotation_complete)]"

definition get_gallery :: "pylib \<Rightarrow> gliff \<Rightarrow> json result" where
  "get_gallery lib g =
     bind (get_content g) (\<lambda>content.
       case content of
         None \<Rightarrow> Inl AttributeError
       | Some b \<Rightarrow> decode_content lib b)"

definition set_gallery :: "pylib \<Rightarrow> gliff \<Rightarrow> json \<Rightarrow> gliff result" where
  "set_gallery lib g gallery = set_content g (encode_content lib gallery)"

text \<open>The loop of \<open>_find_gallery_tile\<close> over the tiles, \<open>i\<close> being the running index.\<close>

fun find_tile_from :: "nat \<Rightarrow> json list \<Rightarrow> string \<Rightarrow> nat option result" where
  "find_tile_from i [] ident = Inr None"
| "find_tile_from i (tile # tiles) ident =
     bind (getitem tile ''id'') (\<lambda>v.
       if v = JStr ident then Inr (Some i) else find_tile_from (Suc i) tiles ident)"

text \<open>
  What a \<open>for\<close> loop or a \<open>*\<close> unpacking iterates: the elements of a list, the keys of
  a dictionary, the characters of a string.
\<close>

definition iterate :: "json \<Rightarrow> json list result" where
  "iterate obj =
     (case obj of
        JList xs \<Rightarrow> Inr xs
      | JDict d \<Rightarrow> Inr (map (\<lambda>kv. JStr (fst kv)) d)
      | JStr t \<Rightarrow> Inr (map (\<lambda>c. JStr [c]) t)
      | _ \<Rightarrow> Inl TypeError)"

definition find_gallery_tile :: "json \<Rightarrow> string \<Rightarrow> nat option result" where
  "find_gallery_tile gallery ident =
     bind (iterate gallery) (\<lambda>tiles. find_tile_from 0 tiles ident)"

text \<open>
  \<open>update_tile(tile, **tile_data)\<close>: every key of \<open>tile_data\<close> that names a parameter
  is bound to it, a parameter without a key keeps its default \<open>None\<close>, and any other key
  lands in \<open>**kwargs\<close>, which the body never reads. A key \<open>tile\<close> would clash with the
  positional argument.
\<close>

definition kwarg :: "(string \<times> json) list \<Rightarrow> string \<Rightarrow> json" where
  "kwarg kwargs name = (case map_of kwargs name of None \<Rightarrow> JNull | Some v \<Rightarrow> v)"

definition dict_update :: "(string \<times> json) list \<Rightarrow> (string \<times> json) list \<Rightarrow> (string \<times> json) list" where
  "dict_update d other = fold (\<lambda>kv. AList.update (fst kv) (snd kv)) other d"

text \<open>
  \<open>tile[key].update(other)\<close>. The callers pass a dictionary as \<open>other\<close>; for
  anything else the model raises TypeError (Python would also take a sequence of pairs).
\<close>

definition update_field :: "(string \<times> json) list \<Rightarrow> string \<Rightarrow> json \<Rightarrow> (string \<times> json) list result" where
  "update_field tile key other =
     (case map_of tile key of
        None \<Rightarrow> Inl KeyError
      | Some (JDict d) \<Rightarrow>
          (case other of
             JDict d' \<Rightarrow> Inr (AList.update key (JDict (dict_update d d')) tile)
           | _ \<Rightarrow> Inl TypeError)
      | Some _ \<Rightarrow> Inl AttributeError)"

definition update_tile :: "(string \<times> json) list \<Rightarrow> (string \<times> json) list \<Rightarrow> (string \<times> json) list result" where
  "update_tile tile kwargs =
     (if map_of kwargs ''tile'' \<noteq> None then Inl TypeError
      else
        let metadata = kwarg kwargs ''metadata'';
            annotationUID = kwarg kwargs ''annotationUID'';
            auditUID = kwarg kwargs ''auditUID'';
            annotationComplete = kwarg kwargs ''annotationComplete'';
            imageLabels = kwarg kwargs ''imageLabels''
        in
        bind (if metadata \<noteq> JNull then update_field tile ''fileInfo'' metadata else Inr tile)
          (\<lambda>tile.
        bind (if annotationUID \<noteq> JNull then update_field tile ''annotationUID'' annotationUID
              else Inr tile)
          (\<lambda>tile.
        bind (if auditUID \<noteq> JNull then update_field tile ''auditUID'' auditUID else Inr tile)
          (\<lambda>tile.
        bind (if annotationComplete \<noteq> JNull
              then update_field
                     (if map_of tile ''annotationComplete'' = None
                      then AList.update ''annotationComplete'' (JDict []) tile else tile)
                     ''annotationComplete'' annotationComplete
              else Inr tile)
          (\<lambda>tile.
        Inr (if imageLabels \<noteq> JNull then AList.update ''imageLabels'' imageLabels tile
             else tile))))))"

text \<open>\<open>gallery[tile_index]\<close>, where \<open>tile_index\<close> is an index or \<open>None\<close>.\<close>

definition subscript :: "json \<Rightarrow> nat option \<Rightarrow> json result" where
  "subscript gallery tile_index =
     (case tile_index of
        None \<Rightarrow> (case gallery of JDict d \<Rightarrow> Inl KeyError | _ \<Rightarrow> Inl TypeError)
      | Some i \<Rightarrow>
          (case gallery of
             JList tiles \<Rightarrow> if i < length tiles then Inr (tiles ! i) else Inl IndexError
           | _ \<Rightarrow> Inl TypeError))"

text \<open>\<open>{**tile}\<close>: a copy of a dictionary.\<close>

definition copy_dict :: "json \<Rightarrow> (string \<times> json) list result" where
  "copy_dict tile = (case tile of JDict d \<Rightarrow> Inr d | _ \<Rightarrow> Inl TypeError)"

text \<open>\<open>gallery[tile_index] = tile\<close>.\<close>

definition store_subscript :: "json \<Rightarrow> nat option \<Rightarrow> json \<Rightarrow> json result" where
  "store_subscript gallery tile_index tile =
     (case tile_index of
        None \<Rightarrow> Inl TypeError
      | Some i \<Rightarrow>
          (case gallery of
             JList tiles \<Rightarrow>
               if i < length tiles then Inr (JList (tiles[i := tile])) else Inl IndexError
           | _ \<Rightarrow> Inl TypeError))"

text \<open>
  \<open>_update_gallery_tile\<close>. The body of the \<open>try\<close> block comes first; the handler
  \<open>except Exception\<close> logs the error and lets the function return normally, with the
  session as it was, since the block writes nothing before \<open>_set_gallery\<close>.
\<close>

definition update_gallery_tile_try :: "pylib \<Rightarrow> gliff \<Rightarrow> string \<Rightarrow> (string \<times> json) list \<Rightarrow> gliff result" where
  "update_gallery_tile_try lib g item_uid tile_data =
     bind (get_gallery lib g) (\<lambda>gallery.
     bind (find_gallery_tile gallery item_uid) (\<lambda>tile_index.
     bind (subscript gallery tile_index) (\<lambda>old.
     bind (copy_dict old) (\<lambda>tile.
     bind (update_tile tile tile_data) (\<lambda>tile'.
     bind (store_subscript gallery tile_index (JDict tile')) (\<lambda>gallery'.
       set_gallery lib g gallery'))))))"

definition update_gallery_tile :: "pylib \<Rightarrow> gliff \<Rightarrow> string \<Rightarrow> (string \<times> json) list \<Rightarrow> gliff" where
  "update_gallery_tile lib g item_uid tile_data =
     (case update_gallery_tile_try lib g item_uid tile_data of
        Inl e \<Rightarrow> g
      | Inr g' \<Rightarrow> g')"

section \<open>Items\<close>

text \<open>
  \<open>item_manager.fetch\<close>, \<open>item_manager.create\<close> and \<open>item_manager.transaction\<close>. The
  manager serves the items of the collection it was made for. \<open>create\<close> builds a local
  item under the uid the library draws for it, here the argument \<open>new_uid\<close>;
  \<open>transaction\<close> uploads the item. A uid that came out of the gallery is a JSON value.
\<close>

definition item_manager_fetch :: "gliff \<Rightarrow> json \<Rightarrow> item result" where
  "item_manager_fetch g ident =
     (case gliff_project g of
        None \<Rightarrow> Inl AttributeError
      | Some P \<Rightarrow>
          (case item_manager P of
             None \<Rightarrow> Inl AttributeError
           | Some m \<Rightarrow>
               (case ident of
                  JStr u \<Rightarrow>
                    (case server_items g (m, u) of
                       None \<Rightarrow> Inl RemoteError
                     | Some it \<Rightarrow> Inr it)
                | _ \<Rightarrow> Inl TypeError)))"

definition item_manager_create :: "gliff \<Rightarrow> string \<Rightarrow> (string \<times> json) list \<Rightarrow> bytes \<Rightarrow> item result" where
  "item_manager_create g new_uid item_metadata item_content =
     (case gliff_project g of
        None \<Rightarrow> Inl AttributeError
      | Some P \<Rightarrow>
          (case item_manager P of
             None \<Rightarrow> Inl AttributeError
           | Some m \<Rightarrow> Inr \<lparr>i_uid = new_uid, i_meta = item_metadata, i_content = item_content\<rparr>))"

definition item_manager_transaction :: "gliff \<Rightarrow> item \<Rightarrow> gliff result" where
  "item_manager_transaction g it =
     (case gliff_project g of
        None \<Rightarrow> Inl AttributeError
      | Some P \<Rightarrow>
          (case item_manager P of
             None \<Rightarrow> Inl AttributeError
           | Some m \<Rightarrow> Inr (g\<lparr>server_items := (server_items g)((m, i_uid it) \<mapsto> it)\<rparr>)))"

text \<open>
  \<open>get_project_item\<close>: an error of the fetch of the item is caught and logged, and the
  function then returns \<open>None\<close>; an error of the fetch of the project is not.
\<close>

definition get_project_item :: "gliff \<Rightarrow> string \<Rightarrow> json \<Rightarrow> (item option \<times> gliff) result" where
  "get_project_item g project_uid ident =
     (if \<not> has_project g then Inr (None, g)
      else
        bind (fetch_project_data g project_uid) (\<lambda>g1.
          case item_manager_fetch g1 ident of
            Inl e \<Rightarrow> Inr (None, g1)
          | Inr it \<Rightarrow> Inr (Some it, g1)))"

section \<open>Annotation records\<close>

text \<open>\<open>key in obj\<close> for a string \<open>key\<close>.\<close>

definition contains :: "json \<Rightarrow> string \<Rightarrow> bool result" where
  "contains obj key =
     (case obj of
        JDict d \<Rightarrow> Inr (map_of d key \<noteq> None)
      | JList xs \<Rightarrow> Inr (List.member xs (JStr key))
      | JStr t \<Rightarrow> Inr (sublist key t)
      | _ \<Rightarrow> Inl TypeError)"

text \<open>The loop of \<open>_get_annotation_uid\<close> over the tiles of the gallery.\<close>

fun annotation_uid_loop :: "json list \<Rightarrow> string \<Rightarrow> string \<Rightarrow> json result" where
  "annotation_uid_loop [] image_item_uid username = Inr JNull"
| "annotation_uid_loop (tile # tiles) image_item_uid username =
     bind (getitem tile ''id'') (\<lambda>v.
       if v = JStr image_item_uid then
         bind (getitem tile ''annotationUID'') (\<lambda>au.
         bind (contains au username) (\<lambda>present.
           if present then getitem au username
           else annotation_uid_loop tiles image_item_uid username))
       else annotation_uid_loop tiles image_item_uid username)"

definition get_annotation_uid :: "pylib \<Rightarrow> gliff \<Rightarrow> string \<Rightarrow> string \<Rightarrow> string \<Rightarrow> (json \<times> gliff) result" where
  "get_annotation_uid lib g project_uid image_item_uid username =
     (if \<not> has_project g then Inr (JNull, g)
      else
        bind (fetch_project_data g project_uid) (\<lambda>g1.
        bind (get_gallery lib g1) (\<lambda>gallery.
        bind (iterate gallery) (\<lambda>tiles.
        bind (annotation_uid_loop tiles image_item_uid username) (\<lambda>item_uid.
          Inr (item_uid, g1))))))"

text \<open>
  \<open>_create_annotation_item\<close>; \<open>now\<close> is the value of \<open>get_current_time()\<close>.
\<close>

definition create_annotation_item :: "pylib \<Rightarrow> int \<Rightarrow> string \<Rightarrow> gliff \<Rightarrow> string \<Rightarrow> string \<Rightarrow> string \<Rightarrow> json \<Rightarrow> json \<Rightarrow> (json \<times> gliff) result" where
  "create_annotation_item lib now new_uid g project_uid image_item_uid username annotations
       metadata =
     (if \<not> has_project g then Inr (JNull, g)
      else
        bind (fetch_project_data g project_uid) (\<lambda>g1.
        let item_metadata = [(''type'', JStr ''gliff.annotation''), (''createdTime'', JInt now),
                             (''modifiedTime'', JInt now), (''isComplete'', JBool False)];
            item_content = encode_content lib annotations
        in
        bind (item_manager_create g1 new_uid item_metadata item_content) (\<lambda>it.
        bind (item_manager_transaction g1 it) (\<lambda>g2.
        let tile_data = create_tile_update JNull metadata (JDict [(username, JStr (i_uid it))])
                          (JDict []) (JDict [(username, JBool False)])
        in Inr (JStr (i_uid it), update_gallery_tile lib g2 image_item_uid tile_data)))))"

text \<open>
  \<open>obj[-1]\<close>, \<open>obj.pop()\<close> and the truth value of an object, as
  \<open>_update_annotation_item\<close> uses them.
\<close>

definition subscript_last :: "json \<Rightarrow> json result" where
  "subscript_last obj =
     (case obj of
        JList xs \<Rightarrow> if xs = [] then Inl IndexError else Inr (last xs)
      | JStr t \<Rightarrow> if t = [] then Inl IndexError else Inr (JStr [last t])
      | JDict d \<Rightarrow> Inl KeyError
      | _ \<Rightarrow> Inl TypeError)"

definition pop :: "json \<Rightarrow> json result" where
  "pop obj =
     (case obj of
        JList xs \<Rightarrow> if xs = [] then Inl IndexError else Inr (JList (butlast xs))
      | JDict d \<Rightarrow> Inl TypeError
      | _ \<Rightarrow> Inl AttributeError)"

definition truthy :: "json \<Rightarrow> bool" where
  "truthy obj =
     (case obj of
        JNull \<Rightarrow> False
      | JBool b \<Rightarrow> b
      | JInt i \<Rightarrow> i \<noteq> 0
      | JStr t \<Rightarrow> t \<noteq> []
      | JList xs \<Rightarrow> xs \<noteq> []
      | JDict d \<Rightarrow> d \<noteq> [])"

text \<open>
  \<open>_update_annotation_item\<close>. The test of the \<open>if\<close> is
  \<open>len(prev_annotations) > 0 & self.is_empty_annotation(prev_annotations[-1])\<close>. In
  Python \<open>&\<close> binds tighter than \<open>>\<close>, so the length is compared with
  \<open>0 & is_empty_annotation(...)\<close>, the bitwise conjunction of the integer \<open>0\<close> and a
  \<open>bool\<close>; the left operand \<open>len(prev_annotations)\<close> is evaluated first, then
  \<open>prev_annotations[-1]\<close> and the call, whatever the length is.
\<close>

definition update_annotation_item :: "pylib \<Rightarrow> int \<Rightarrow> gliff \<Rightarrow> string \<Rightarrow> string \<Rightarrow> json \<Rightarrow> json \<Rightarrow> json \<Rightarrow> (json \<times> gliff) result" where
  "update_annotation_item lib now g project_uid image_item_uid annotation_item_uid annotations
       metadata =
     (if \<not> has_project g then Inr (JNull, g)
      else
        bind (fetch_project_data g project_uid) (\<lambda>g1.
        bind (get_project_item g1 project_uid annotation_item_uid) (\<lambda>(fetched_item, g2).
          case fetched_item of
            None \<Rightarrow> Inl AttributeError
          | Some it \<Rightarrow>
              bind (decode_content lib (i_content it)) (\<lambda>prev_annotations.
              bind (len prev_annotations) (\<lambda>n.
              bind (subscript_last prev_annotations) (\<lambda>last_annotation.
              bind (is_empty_annotation last_annotation) (\<lambda>e.
              bind (if int n > (0 AND (if e then 1 else 0)) then pop prev_annotations
                    else Inr prev_annotations) (\<lambda>prev_annotations.
              let it1 = it\<lparr>i_meta := AList.update ''modifiedTime'' (JInt now) (i_meta it)\<rparr> in
              bind (iterate prev_annotations) (\<lambda>xs.
              bind (iterate annotations) (\<lambda>ys.
              let it2 = it1\<lparr>i_content := encode_content lib (JList (xs @ ys))\<rparr> in
              bind (item_manager_transaction g2 it2) (\<lambda>g3.
              let g4 = (if truthy metadata
                        then update_gallery_tile lib g3 image_item_uid
                               (create_tile_update JNull metadata (JDict []) (JDict []) (JDict []))
                        else g3)
              in Inr (JStr (i_uid it2), g4))))))))))))"

definition upload_annotation :: "pylib \<Rightarrow> int \<Rightarrow> string \<Rightarrow> gliff \<Rightarrow> string \<Rightarrow> string \<Rightarrow> string \<Rightarrow> json \<Rightarrow> json \<Rightarrow> (json \<times> gliff) result" where
  "upload_annotation lib now new_uid g project_uid image_item_uid username annotations metadata =
     bind (get_annotation_uid lib g project_uid image_item_uid username)
       (\<lambda>(annotation_item_uid, g1).
          if annotation_item_uid = JNull
          then create_annotation_item lib now new_uid g1 project_uid image_item_uid username
                 annotations metadata
          else
            bind (update_annotation_item lib now g1 project_uid image_item_uid
                    annotation_item_uid annotations metadata)
              (\<lambda>(r, g2). Inr (annotation_item_uid, g2)))"

section \<open>Image codec\<close>












section \<open>Notions used in the statements\<close>

text \<open>The cached project is the requested one.\<close>

definition cache_hit :: "Project \<Rightarrow> string \<Rightarrow> bool" where
  "cache_hit P project_uid =
     (case project P of None \<Rightarrow> False | Some c \<Rightarrow> c_uid c = project_uid)"

text \<open>
  The session after one remote fetch of the collection \<open>project_uid\<close>, whose content on
  the server is \<open>b\<close>: the fetch is recorded and the cache replaced.
\<close>

definition opened :: "gliff \<Rightarrow> string \<Rightarrow> bytes \<Rightarrow> gliff" where
  "opened g project_uid b =
     g\<lparr>fetched := fetched g @ [project_uid],
       gliff_project := Some \<lparr>project = Some \<lparr>c_uid = project_uid, c_content = b\<rparr>,
                             item_manager = Some project_uid\<rparr>\<rparr>"

text \<open>The tile has an id, and it is not \<open>ident\<close>.\<close>

definition tile_id_differs :: "json \<Rightarrow> string \<Rightarrow> bool" where
  "tile_id_differs tile ident =
     (case getitem tile ''id'' of Inl e \<Rightarrow> False | Inr v \<Rightarrow> v \<noteq> JStr ident)"

section \<open>Example data\<close>

text \<open>
  A logged-in session whose cached project \<open>p1\<close> has the content \<open>b\<close>, over a server
  holding that project and the given items.
\<close>

definition session_with :: "bytes \<Rightarrow> (string \<times> string \<rightharpoonup> item) \<Rightarrow> gliff" where
  "session_with b items =
     \<lparr>gliff_project = Some \<lparr>project = Some \<lparr>c_uid = ''p1'', c_content = b\<rparr>,
                              item_manager = Some ''p1''\<rparr>,
      server_collections = [''p1'' \<mapsto> b], server_items = items, fetched = [''p1'']\<rparr>"

text \<open>A session after login, nothing fetched yet, over a server with two projects.\<close>

definition fresh_session :: gliff where
  "fresh_session =
     \<lparr>gliff_project = Some \<lparr>project = None, item_manager = None\<rparr>,
      server_collections = [''p1'' \<mapsto> ''[]'', ''p2'' \<mapsto> ''[1]''],
      server_items = Map.empty, fetched = []\<rparr>"

text \<open>A gallery of one tile, for the image \<open>img1\<close>, as the project stores it.\<close>

definition gallery_text :: bytes where
  "gallery_text = ''[{\"id\":\"img1\",\"thumbnail\":\"\",\"imageLabels\":[\"cat\"],\"fileInfo\":{\"b\":2},\"imageUID\":\"img1\",\"annotationUID\":{},\"auditUID\":{},\"annotationComplete\":{}}]''"

section \<open>Example annotations\<close>

text \<open>Two annotations that are not empty: a spline with one point and a bounding box.\<close>

definition ann_spline :: json where
  "ann_spline = create_annotation ''spline'' (JList [])
     (create_spline (JList [create_xypoint (JInt 1) (JInt 2)]) default_space_time_info (JBool False))
     default_bounding_box (JList []) (JDict [])"

definition ann_box :: json where
  "ann_box = create_annotation ''boundingBox'' (JList []) default_spline
     (create_bounding_box (create_xypoint (JInt 3) (JInt 4)) (create_xypoint (JInt 9) (JInt 9))
        default_space_time_info)
     (JList []) (JDict [])"

text \<open>
  The gallery of \<open>gallery_text\<close> once \<open>user1\<close> has the annotation item \<open>a1\<close> for
  \<open>img1\<close>, and that item, created at \<open>ctime\<close> and last modified at \<open>mtime\<close>, holding
  the encoded \<open>record\<close>.
\<close>

definition gallery_text_linked :: bytes where
  "gallery_text_linked = ''[{\"id\":\"img1\",\"thumbnail\":\"\",\"imageLabels\":[\"cat\"],\"fileInfo\":{\"b\":2},\"imageUID\":\"img1\",\"annotationUID\":{\"user1\":\"a1\"},\"auditUID\":{},\"annotationComplete\":{\"user1\":false}}]''"

definition annotation_item :: "int \<Rightarrow> int \<Rightarrow> json \<Rightarrow> item" where
  "annotation_item ctime mtime record =
     \<lparr>i_uid = ''a1'',
      i_meta = [(''type'', JStr ''gliff.annotation''), (''createdTime'', JInt ctime),
                (''modifiedTime'', JInt mtime), (''isComplete'', JBool False)],
      i_content = encode_content py record\<rparr>"

section \<open>Notions and example data for the image codec\<close>








section \<open>Properties\<close>

subsection \<open>Evaluating the reference instance\<close>

text \<open>
  The equations of the parser at a numeral fuel, and of \<open>digits\<close> at a numeral, so that
  the simplifier can run both on concrete texts.
\<close>

lemma char_of_nat_eval:
  "char_of (n::nat) = Char (odd n) (odd (n div 2)) (odd (n div 4)) (odd (n div 8))
     (odd (n div 16)) (odd (n div 32)) (odd (n div 64)) (odd (n div 128))"
  by (simp add: char_of_def bit_iff_odd)

lemma parse_value_numeral:
  "parse_value (numeral k) s = 
     (case s of
        [] \<Rightarrow> None
      | c # cs \<Rightarrow>
          if c = dq then map_option (apfst JStr) (parse_string cs)
          else if c = CHR ''['' then
            (case skip_ws cs of
               [] \<Rightarrow> None
             | d # r \<Rightarrow>
                 if d = CHR '']'' then Some (JList [], r)
                 else map_option (apfst JList) (parse_elems (pred_numeral k) (d # r)))
          else if c = CHR ''{'' then
            (case skip_ws cs of
               [] \<Rightarrow> None
             | d # r \<Rightarrow>
                 if d = CHR ''}'' then Some (JDict [], r)
                 else map_option
                        (apfst (\<lambda>ps. JDict (fold (\<lambda>kv. AList.update (fst kv) (snd kv)) ps [])))
                        (parse_members (pred_numeral k) (d # r)))
          else if take 4 s = ''null'' then Some (JNull, drop 4 s)
          else if take 4 s = ''true'' then Some (JBool True, drop 4 s)
          else if take 5 s = ''false'' then Some (JBool False, drop 5 s)
          else map_option (apfst JInt) (parse_int s))"
  by (simp only: numeral_eq_Suc parse_value.simps)

lemma parse_elems_numeral:
  "parse_elems (numeral k) s =
     (case parse_value (pred_numeral k) s of
        None \<Rightarrow> None
      | Some (v, r) \<Rightarrow>
          (case skip_ws r of
             [] \<Rightarrow> None
           | c # r1 \<Rightarrow>
               if c = CHR '','' then
                 map_option (apfst (Cons v)) (parse_elems (pred_numeral k) (skip_ws r1))
               else if c = CHR '']'' then Some ([v], r1)
               else None))"
  by (simp only: numeral_eq_Suc parse_elems.simps)

lemma parse_members_numeral:
  "parse_members (numeral k) s =
     (case s of
        [] \<Rightarrow> None
      | q # s1 \<Rightarrow>
          if q \<noteq> dq then None
          else
            (case parse_string s1 of
               None \<Rightarrow> None
             | Some (k', r) \<Rightarrow>
                 (case skip_ws r of
                    [] \<Rightarrow> None
                  | c # r1 \<Rightarrow>
                      if c \<noteq> CHR '':'' then None
                      else
                        (case parse_value (pred_numeral k) (skip_ws r1) of
                           None \<Rightarrow> None
                         | Some (v, r2) \<Rightarrow>
                             (case skip_ws r2 of
                                [] \<Rightarrow> None
                              | e # r3 \<Rightarrow>
                                  if e = CHR '','' then
                                    map_option (apfst (Cons (k', v)))
                                      (parse_members (pred_numeral k) (skip_ws r3))
                                  else if e = CHR ''}'' then Some ([(k', v)], r3)
                                  else None)))))"
  by (simp only: numeral_eq_Suc parse_members.simps)

lemma digits_numeral:
  "digits (numeral k) =
     (if (numeral k :: nat) < 10 then [digit_char (numeral k)]
      else digits (numeral k div 10) @ [digit_char (numeral k mod 10)])"
  by (rule digits.simps)

lemma digits_small: "digits 0 = ''0''" "digits 1 = ''1''" "digits (Suc 0) = ''1''"
  by (simp_all add: digits.simps digit_char_def char_of_nat_eval)

declare digits.simps [simp del]

lemmas ref_eval = parse_value_numeral parse_elems_numeral parse_members_numeral
  ref_loads_def skip_ws_def is_ws_def parse_int_def is_digit_def dq_def bsl_def
  simple_escape_def hex4_val_def hex_val_def utf8_encode_cp_def
  digits_numeral digits_small digit_char_def show_int_def hex_char_def hex4_def escape_cp_def
  dump_str_def is_cont_def cont_bits_def py_def char_of_nat_eval

subsection \<open>Emptiness predicate\<close>

text \<open>
  C4. For an annotation whose spline coordinates and brush strokes are lists and whose
  bounding box has a top-left x, \<open>is_empty_annotation\<close> returns true exactly when the
  coordinates are empty, the brush strokes are empty and the top-left x is \<open>None\<close>.
\<close>

theorem is_empty_annotation_iff:
  assumes "getitem annotation ''spline'' = Inr spline"
    and "getitem spline ''coordinates'' = Inr (JList cs)"
    and "getitem annotation ''brushStrokes'' = Inr (JList bs)"
    and "getitem annotation ''boundingBox'' = Inr box"
    and "getitem box ''coordinates'' = Inr bc"
    and "getitem bc ''topLeft'' = Inr corner"
    and "getitem corner ''x'' = Inr x"
  shows "is_empty_annotation annotation = Inr (cs = [] \<and> bs = [] \<and> x = JNull)"
  using assms by (simp add: is_empty_annotation_def bind_def len_def)

theorem is_empty_annotation_iff_witness:
  "is_empty_annotation
     (create_annotation ''spline'' (JList []) default_spline default_bounding_box (JList [])
        (JDict [])) = Inr True
   \<and> is_empty_annotation
     (create_annotation ''boundingBox'' (JList [])  default_spline
        (create_bounding_box (create_xypoint (JInt 3) (JInt 4)) (create_xypoint (JInt 9) (JInt 9))
           default_space_time_info)
        (JList []) (JDict [])) = Inr False"
proof -
  let ?a = "create_annotation ''spline'' (JList []) default_spline default_bounding_box (JList [])
        (JDict [])"
  let ?box = "create_bounding_box (create_xypoint (JInt 3) (JInt 4))
      (create_xypoint (JInt 9) (JInt 9)) default_space_time_info"
  let ?b = "create_annotation ''boundingBox'' (JList []) default_spline ?box (JList []) (JDict [])"
  have "is_empty_annotation ?a = Inr ([] = ([]::json list) \<and> [] = ([]::json list) \<and> JNull = JNull)"
    by (rule is_empty_annotation_iff [where spline = default_spline and box = default_bounding_box
          and bc = "JDict [(''topLeft'', create_xypoint JNull JNull),
                           (''bottomRight'', create_xypoint JNull JNull)]"
          and corner = "create_xypoint JNull JNull"])
       (simp_all add: create_annotation_def default_spline_def default_bounding_box_def
          create_spline_def create_bounding_box_def create_xypoint_def getitem_def)
  moreover have "is_empty_annotation ?b = Inr ([] = ([]::json list) \<and> [] = ([]::json list) \<and> JInt 3 = JNull)"
    by (rule is_empty_annotation_iff [where spline = default_spline and box = ?box
          and bc = "JDict [(''topLeft'', create_xypoint (JInt 3) (JInt 4)),
                           (''bottomRight'', create_xypoint (JInt 9) (JInt 9))]"
          and corner = "create_xypoint (JInt 3) (JInt 4)"])
       (simp_all add: create_annotation_def default_spline_def 
          create_spline_def create_bounding_box_def create_xypoint_def getitem_def)
  ultimately show ?thesis by simp
qed

subsection \<open>Content codec\<close>

text \<open>
  The two functions compose to the round trip of the json module: where \<open>json.loads\<close>
  reads back what \<open>json.dumps\<close> wrote, and that text is well-formed UTF-8 (it is ASCII
  for \<open>json.dumps\<close> with its default \<open>ensure_ascii\<close>), decoding the encoding of \<open>v\<close>
  gives \<open>v\<close>.
\<close>

lemma decode_encode_content:
  assumes "json_loads lib (json_dumps lib v) = Some v"
    and "utf8_decode (json_dumps lib v) \<noteq> None"
  shows "decode_content lib (encode_content lib v) = Inr v"
  using assms
  by (auto simp: decode_content_def encode_content_def bytes_decode_def str_encode_def bind_def)




subsection \<open>Project session\<close>

text \<open>
  C8. With a logged-in session and the projects \<open>p\<close> and \<open>q\<close> on the server,
  \<open>_fetch_project_data p\<close> fetches exactly when no project is cached or the cached
  one has another uid; a second call with \<open>p\<close> changes nothing, so the two calls make one
  fetch or none; a call with a different uid \<open>q\<close> makes one more fetch and replaces the
  cached project and item manager.
\<close>

theorem fetch_project_data_caching:
  assumes "gliff_project g = Some P"
    and "server_collections g p = Some b"
    and "server_collections g q = Some d"
    and "q \<noteq> p"
  shows "fetch_project_data g p = Inr (if cache_hit P p then g else opened g p b)
       \<and> bind (fetch_project_data g p) (\<lambda>g1. fetch_project_data g1 p)
           = Inr (if cache_hit P p then g else opened g p b)
       \<and> bind (fetch_project_data g p) (\<lambda>g1. Inr (fetched g1))
           = Inr (if cache_hit P p then fetched g else fetched g @ [p])
       \<and> bind (fetch_project_data g p) (\<lambda>g1. fetch_project_data g1 q)
           = Inr (opened (if cache_hit P p then g else opened g p b) q d)"
  using assms
  by (auto simp: fetch_project_data_def fetch_project_def fetch_item_manager_def bind_def
        cache_hit_def opened_def split: option.splits)

theorem fetch_project_data_caching_witness:
  "fetch_project_data fresh_session ''p1'' = Inr (opened fresh_session ''p1'' ''[]'')
   \<and> bind (fetch_project_data fresh_session ''p1'') (\<lambda>g1. fetch_project_data g1 ''p1'')
       = Inr (opened fresh_session ''p1'' ''[]'')
   \<and> bind (fetch_project_data fresh_session ''p1'') (\<lambda>g1. Inr (fetched g1)) = Inr [''p1'']
   \<and> bind (fetch_project_data fresh_session ''p1'') (\<lambda>g1. fetch_project_data g1 ''p2'')
       = Inr (opened (opened fresh_session ''p1'' ''[]'') ''p2'' ''[1]'')"
proof -
  have 1: "gliff_project fresh_session = Some \<lparr>project = None, item_manager = None\<rparr>"
    by (simp add: fresh_session_def)
  have 2: "server_collections fresh_session ''p1'' = Some ''[]''"
    by (simp add: fresh_session_def)
  have 3: "server_collections fresh_session ''p2'' = Some ''[1]''"
    by (simp add: fresh_session_def)
  have 4: "''p2'' \<noteq> ''p1''"
    by simp
  have 5: "fetched fresh_session = []"
    by (simp add: fresh_session_def)
  from fetch_project_data_caching [OF 1 2 3 4] show ?thesis
    by (auto simp: cache_hit_def 5 bind_def)
qed

subsection \<open>Gallery index\<close>

lemmas gallery_eval = update_gallery_tile_def update_gallery_tile_try_def get_gallery_def
  set_gallery_def get_content_def set_content_def decode_content_def encode_content_def
  bytes_decode_def str_encode_def bind_def find_gallery_tile_def iterate_def getitem_def
  subscript_def
  copy_dict_def store_subscript_def update_tile_def update_field_def kwarg_def dict_update_def
  create_tile_update_def Let_def

lemma find_tile_from_absent:
  "list_all (\<lambda>t. tile_id_differs t ident) tiles \<Longrightarrow> find_tile_from i tiles ident = Inr None"
  by (induction tiles arbitrary: i)
     (auto simp: tile_id_differs_def bind_def split: sum.splits)

text \<open>
  C5, as the code has it. When the gallery is a list of tiles none of which has the
  requested id, \<open>_find_gallery_tile\<close> returns \<open>None\<close>, \<open>gallery[None]\<close> raises
  TypeError inside the \<open>try\<close> block, the handler catches it, and
  \<open>_update_gallery_tile\<close> returns normally with the session unchanged.
\<close>

theorem update_gallery_tile_absent:
  assumes "get_gallery lib g = Inr (JList tiles)"
    and "list_all (\<lambda>t. tile_id_differs t ident) tiles"
  shows "update_gallery_tile_try lib g ident tile_data = Inl TypeError
       \<and> update_gallery_tile lib g ident tile_data = g"
  using assms find_tile_from_absent [of ident tiles 0]
  by (simp add: update_gallery_tile_def update_gallery_tile_try_def bind_def
        find_gallery_tile_def iterate_def subscript_def)

theorem update_gallery_tile_absent_witness:
  "get_gallery py (session_with ''[{\"id\":\"img1\"}]'' Map.empty)
     = Inr (JList [JDict [(''id'', JStr ''img1'')]])
   \<and> list_all (\<lambda>t. tile_id_differs t ''img2'') [JDict [(''id'', JStr ''img1'')]]
   \<and> update_gallery_tile_try py (session_with ''[{\"id\":\"img1\"}]'' Map.empty) ''img2'' []
     = Inl TypeError
   \<and> update_gallery_tile py (session_with ''[{\"id\":\"img1\"}]'' Map.empty) ''img2'' []
     = session_with ''[{\"id\":\"img1\"}]'' Map.empty"
proof -
  have a: "get_gallery py (session_with ''[{\"id\":\"img1\"}]'' Map.empty)
     = Inr (JList [JDict [(''id'', JStr ''img1'')]])"
    by (simp add: gallery_eval session_with_def ref_eval)
  have b: "list_all (\<lambda>t. tile_id_differs t ''img2'') [JDict [(''id'', JStr ''img1'')]]"
    by (simp add: tile_id_differs_def getitem_def)
  from update_gallery_tile_absent [OF a b, of "[]"] a b show ?thesis
    by simp
qed

text \<open>
  The claim C5 as stated fails: patching the tile of \<open>img2\<close> in a gallery that only has
  \<open>img1\<close> raises nothing to the caller; the call returns and the session is as before.
\<close>

theorem update_gallery_tile_missing_tile_returns:
  "update_gallery_tile_try py (session_with gallery_text Map.empty) ''img2''
     (create_tile_update JNull (JDict [(''a'', JInt 1)]) (JDict []) (JDict []) (JDict []))
   = Inl TypeError
  \<and> update_gallery_tile py (session_with gallery_text Map.empty) ''img2''
     (create_tile_update JNull (JDict [(''a'', JInt 1)]) (JDict []) (JDict []) (JDict []))
   = session_with gallery_text Map.empty"
  by (simp add: gallery_eval session_with_def gallery_text_def ref_eval)

text \<open>
  What the patch does on a tile that has the three mappings: \<open>dict.update\<close> merges key
  by key, the patch winning on a key both have; the patch built by \<open>_create_tile_update\<close>
  merges \<open>annotationUID\<close>, \<open>auditUID\<close> and \<open>annotationComplete\<close>, replaces
  \<open>imageLabels\<close> when they are given, and leaves \<open>fileInfo\<close> as it was whatever the
  metadata are.
\<close>

lemma map_of_dict_update:
  "distinct (map fst other) \<Longrightarrow>
   map_of (dict_update d other) k = (case map_of other k of Some v \<Rightarrow> Some v | None \<Rightarrow> map_of d k)"
  unfolding dict_update_def
proof (induction other arbitrary: d)
  case Nil
  show ?case by simp
next
  case (Cons kv other)
  from Cons.prems have "map_of other (fst kv) = None"
    by (simp add: map_of_eq_None_iff)
  with Cons show ?case
    by (cases kv) (auto simp: update_conv' split: option.splits)
qed

lemma update_field_dict:
  assumes "map_of tile key = Some (JDict d)"
  shows "update_field tile key (JDict other) = Inr (AList.update key (JDict (dict_update d other)) tile)"
  using assms by (simp add: update_field_def)

lemma update_tile_create_tile_update:
  assumes "map_of tile ''annotationUID'' = Some (JDict au)"
    and "map_of tile ''auditUID'' = Some (JDict ad)"
    and "map_of tile ''annotationComplete'' = Some (JDict ac)"
  shows "\<exists>tile'.
       update_tile tile
         (create_tile_update image_labels metadata (JDict au') (JDict ad') (JDict ac')) = Inr tile'
     \<and> map_of tile' ''annotationUID'' = Some (JDict (dict_update au au'))
     \<and> map_of tile' ''auditUID'' = Some (JDict (dict_update ad ad'))
     \<and> map_of tile' ''annotationComplete'' = Some (JDict (dict_update ac ac'))
     \<and> map_of tile' ''imageLabels''
         = (if image_labels \<noteq> JNull then Some image_labels else map_of tile ''imageLabels'')
     \<and> map_of tile' ''fileInfo'' = map_of tile ''fileInfo''
     \<and> map_of tile' ''id'' = map_of tile ''id''"
  using assms
  by (simp add: update_tile_def create_tile_update_def kwarg_def Let_def bind_def
        update_field_def update_conv')

lemma create_tile_update_no_metadata:
  "map_of (create_tile_update image_labels metadata annotation_uid audit_uid annotation_complete)
     ''metadata'' = None"
  by (simp add: create_tile_update_def Let_def)

lemma map_of_update_field:
  "update_field tile key other = Inr tile' \<Longrightarrow> k \<noteq> key \<Longrightarrow> map_of tile' k = map_of tile k"
  by (auto simp: update_field_def update_conv' split: option.splits json.splits)

lemma update_tile_keeps_fileInfo:
  assumes "map_of kwargs ''metadata'' = None" and "update_tile tile kwargs = Inr tile'"
  shows "map_of tile' ''fileInfo'' = map_of tile ''fileInfo''"
  using assms
  by (auto simp: update_tile_def kwarg_def Let_def bind_def update_conv'
      split: if_splits sum.splits dest!: map_of_update_field [where k = "''fileInfo''"])

text \<open>
  C3 at a concrete gallery. The tile of \<open>img1\<close> has \<open>fileInfo = {"b": 2}\<close>. The patch
  built by \<open>_create_tile_update(metadata={"a": 1})\<close> carries the metadata under the key
  \<open>fileInfo\<close>, while the parameter of \<open>update_tile\<close> that feeds \<open>fileInfo\<close> is
  called \<open>metadata\<close>. The patch is applied without error and writes the gallery back as
  it was: \<open>fileInfo\<close> is still \<open>{"b": 2}\<close>.
\<close>

theorem update_gallery_tile_drops_metadata:
  "update_gallery_tile_try py (session_with gallery_text Map.empty) ''img1''
     (create_tile_update JNull (JDict [(''a'', JInt 1)]) (JDict []) (JDict []) (JDict []))
   = Inr (session_with gallery_text Map.empty)
  \<and> bind (get_gallery py (update_gallery_tile py (session_with gallery_text Map.empty) ''img1''
       (create_tile_update JNull (JDict [(''a'', JInt 1)]) (JDict []) (JDict []) (JDict []))))
      (\<lambda>gallery. bind (subscript gallery (Some 0)) (\<lambda>tile. getitem tile ''fileInfo''))
   = Inr (JDict [(''b'', JInt 2)])"
  by (simp add: gallery_eval session_with_def gallery_text_def ref_eval)

subsection \<open>Annotation records\<close>

lemmas ann_eval = ann_spline_def ann_box_def create_annotation_def create_spline_def
  create_bounding_box_def create_xypoint_def default_space_time_info_def default_spline_def
  default_bounding_box_def

lemmas annotation_eval = update_annotation_item_def get_project_item_def has_project_def
  fetch_project_data_def item_manager_fetch_def item_manager_transaction_def
  subscript_last_def pop_def truthy_def len_def is_empty_annotation_def
  upload_annotation_def create_annotation_item_def get_annotation_uid_def contains_def
  item_manager_create_def

lemma fetch_project_data_again:
  assumes "fetch_project_data g p = Inr g1"
  shows "fetch_project_data g1 p = Inr g1" and "has_project g1" and "has_project g"
  using assms
  by (auto simp: fetch_project_data_def fetch_project_def fetch_item_manager_def bind_def
        has_project_def split: option.splits if_splits)

text \<open>
  What \<open>_update_annotation_item\<close> does on a record that is a non-empty list: the last
  element is dropped whether it is empty or not (\<open>e\<close> is free), the new annotations are
  appended, and the item is written back under its own uid.
\<close>

lemma update_annotation_item_drops_last:
  assumes "fetch_project_data g p = Inr g1"
    and "gliff_project g1 = Some P" and "item_manager P = Some m"
    and "server_items g1 (m, u) = Some it"
    and "decode_content lib (i_content it) = Inr (JList (prev @ [x]))"
    and "is_empty_annotation x = Inr e"
    and "\<not> truthy metadata"
  shows "update_annotation_item lib now g p img (JStr u) (JList new) metadata =
           Inr (JStr (i_uid it),
                g1\<lparr>server_items := (server_items g1)((m, i_uid it) \<mapsto>
                     it\<lparr>i_meta := AList.update ''modifiedTime'' (JInt now) (i_meta it),
                        i_content := encode_content lib (JList (prev @ new))\<rparr>)\<rparr>)"
proof -
  have item: "get_project_item g1 p (JStr u) = Inr (Some it, g1)"
    using fetch_project_data_again [OF assms(1)] assms(2-4)
    by (simp add: get_project_item_def bind_def item_manager_fetch_def)
  show ?thesis
    using fetch_project_data_again(3) [OF assms(1)] assms item
    by (simp add: update_annotation_item_def bind_def len_def subscript_last_def pop_def
          iterate_def item_manager_transaction_def Let_def)
qed

text \<open>On a record that is the empty list, \<open>prev_annotations[-1]\<close> raises IndexError.\<close>

lemma update_annotation_item_empty_record:
  assumes "fetch_project_data g p = Inr g1"
    and "gliff_project g1 = Some P" and "item_manager P = Some m"
    and "server_items g1 (m, u) = Some it"
    and "decode_content lib (i_content it) = Inr (JList [])"
  shows "update_annotation_item lib now g p img (JStr u) annotations metadata = Inl IndexError"
proof -
  have item: "get_project_item g1 p (JStr u) = Inr (Some it, g1)"
    using fetch_project_data_again [OF assms(1)] assms(2-4)
    by (simp add: get_project_item_def bind_def item_manager_fetch_def)
  show ?thesis
    using fetch_project_data_again(3) [OF assms(1)] assms item
    by (simp add: update_annotation_item_def bind_def len_def subscript_last_def)
qed

text \<open>
  The two branches of \<open>upload_annotation\<close>. With no annotation uid for the user in the
  gallery, an item is created under the fresh uid, with \<open>isComplete\<close> false, and the tile
  is patched with the link and \<open>annotationComplete\<close> false for the user.
\<close>

lemma upload_annotation_creates:
  assumes "fetch_project_data g p = Inr g1"
    and "gliff_project g1 = Some P" and "item_manager P = Some m"
    and "get_gallery lib g1 = Inr (JList tiles)"
    and "annotation_uid_loop tiles img user = Inr JNull"
  shows "upload_annotation lib now new_uid g p img user annotations metadata =
           Inr (JStr new_uid,
                update_gallery_tile lib
                  (g1\<lparr>server_items := (server_items g1)((m, new_uid) \<mapsto>
                       \<lparr>i_uid = new_uid,
                        i_meta = [(''type'', JStr ''gliff.annotation''), (''createdTime'', JInt now),
                                  (''modifiedTime'', JInt now), (''isComplete'', JBool False)],
                        i_content = encode_content lib annotations\<rparr>)\<rparr>)
                  img
                  (create_tile_update JNull metadata (JDict [(user, JStr new_uid)]) (JDict [])
                     (JDict [(user, JBool False)])))"
  using fetch_project_data_again [OF assms(1)] assms
  by (simp add: upload_annotation_def get_annotation_uid_def create_annotation_item_def
        bind_def iterate_def item_manager_create_def item_manager_transaction_def Let_def)

text \<open>
  With an annotation uid \<open>u\<close> for the user in the gallery, that item is updated, nothing
  is created, and \<open>u\<close> is returned, provided the stored record is a non-empty list.
\<close>

lemma upload_annotation_updates:
  assumes "fetch_project_data g p = Inr g1"
    and "gliff_project g1 = Some P" and "item_manager P = Some m"
    and "get_gallery lib g1 = Inr (JList tiles)"
    and "annotation_uid_loop tiles img user = Inr (JStr u)"
    and "server_items g1 (m, u) = Some it"
    and "decode_content lib (i_content it) = Inr (JList (prev @ [x]))"
    and "is_empty_annotation x = Inr e"
    and "\<not> truthy metadata"
  shows "upload_annotation lib now new_uid g p img user (JList new) metadata =
           Inr (JStr u,
                g1\<lparr>server_items := (server_items g1)((m, i_uid it) \<mapsto>
                     it\<lparr>i_meta := AList.update ''modifiedTime'' (JInt now) (i_meta it),
                        i_content := encode_content lib (JList (prev @ new))\<rparr>)\<rparr>)"
  using assms(1,4,5) fetch_project_data_again(3) [OF assms(1)]
    update_annotation_item_drops_last [OF fetch_project_data_again(1) [OF assms(1)] assms(2,3,6-9)]
  by (simp add: upload_annotation_def get_annotation_uid_def bind_def iterate_def)

text \<open>The first upload for \<open>img1\<close> and \<open>user1\<close>, and a second one, evaluated.\<close>

lemma first_upload:
  "upload_annotation py 5 ''a1'' (session_with gallery_text Map.empty) ''p1'' ''img1'' ''user1''
     (JList [ann_spline]) (JDict [])
   = Inr (JStr ''a1'',
          session_with gallery_text_linked
            [(''p1'', ''a1'') \<mapsto> annotation_item 5 5 (JList [ann_spline])])"
  by (simp add: annotation_eval gallery_eval session_with_def gallery_text_def
        gallery_text_linked_def annotation_item_def ann_eval ref_eval)

lemma second_upload:
  "upload_annotation py 7 ''a2''
     (session_with gallery_text_linked
        [(''p1'', ''a1'') \<mapsto> annotation_item 5 5 (JList [ann_spline])])
     ''p1'' ''img1'' ''user1'' (JList [ann_box]) (JDict [])
   = Inr (JStr ''a1'',
          session_with gallery_text_linked
            [(''p1'', ''a1'') \<mapsto> annotation_item 5 7 (JList [ann_box])])"
  by (simp add: annotation_eval gallery_eval session_with_def
        gallery_text_linked_def annotation_item_def ann_eval ref_eval)

lemma first_upload_of_nothing:
  "upload_annotation py 5 ''a1'' (session_with gallery_text Map.empty) ''p1'' ''img1'' ''user1''
     (JList []) (JDict [])
   = Inr (JStr ''a1'',
          session_with gallery_text_linked [(''p1'', ''a1'') \<mapsto> annotation_item 5 5 (JList [])])"
  by (simp add: annotation_eval gallery_eval session_with_def gallery_text_def
        gallery_text_linked_def annotation_item_def ann_eval ref_eval)

lemma upload_after_nothing:
  "upload_annotation py 7 ''a2''
     (session_with gallery_text_linked [(''p1'', ''a1'') \<mapsto> annotation_item 5 5 (JList [])])
     ''p1'' ''img1'' ''user1'' (JList [ann_box]) (JDict [])
   = Inl IndexError"
  by (simp add: annotation_eval gallery_eval session_with_def
        gallery_text_linked_def annotation_item_def ann_eval ref_eval)

lemma examples_not_empty:
  "is_empty_annotation ann_spline = Inr False" "is_empty_annotation ann_box = Inr False"
  by (simp_all add: is_empty_annotation_def bind_def getitem_def len_def ann_eval)

text \<open>
  C1 at the scenario of the specification. \<open>upload_annotation\<close> is called for \<open>img1\<close> and
  \<open>user1\<close> with \<open>[ann_spline]\<close> and then with \<open>[ann_box]\<close>, neither annotation being
  empty. The second call returns the uid of the same item, and the record it leaves on the
  server is \<open>[ann_box]\<close>: the first annotation is gone.
\<close>

theorem upload_twice_loses_first_annotation:
  "bind (upload_annotation py 5 ''a1'' (session_with gallery_text Map.empty) ''p1'' ''img1''
           ''user1'' (JList [ann_spline]) (JDict []))
     (\<lambda>(uid1, g1).
        bind (upload_annotation py 7 ''a2'' g1 ''p1'' ''img1'' ''user1'' (JList [ann_box]) (JDict []))
          (\<lambda>(uid2, g2).
             Inr (uid1, uid2, map_option i_content (server_items g2 (''p1'', ''a1'')),
                  map_option i_content (server_items g2 (''p1'', ''a2'')))))
   = Inr (JStr ''a1'', JStr ''a1'', Some (encode_content py (JList [ann_box])), None)
   \<and> is_empty_annotation ann_spline = Inr False
   \<and> is_empty_annotation ann_box = Inr False
   \<and> decode_content py (encode_content py (JList [ann_box])) = Inr (JList [ann_box])"
proof -
  have "decode_content py (encode_content py (JList [ann_box])) = Inr (JList [ann_box])"
    by (simp add: decode_content_def encode_content_def bytes_decode_def str_encode_def bind_def
          ann_eval ref_eval)
  moreover have "server_items (session_with b items) = items" for b items
    by (simp add: session_with_def)
  moreover have "i_content (annotation_item c m r) = encode_content py r" for c m r
    by (simp add: annotation_item_def)
  ultimately show ?thesis
    by (simp add: first_upload second_upload examples_not_empty bind_def)
qed

text \<open>
  C2 at an existing record that is the empty list. The first upload, of no annotation,
  takes the create branch and stores the record \<open>[]\<close>; the second upload for the same
  image and user takes the update branch, where \<open>prev_annotations[-1]\<close> raises IndexError:
  the item is not updated and no uid is returned.
\<close>

theorem upload_to_empty_record_raises:
  "upload_annotation py 5 ''a1'' (session_with gallery_text Map.empty) ''p1'' ''img1'' ''user1''
     (JList []) (JDict [])
   = Inr (JStr ''a1'',
          session_with gallery_text_linked [(''p1'', ''a1'') \<mapsto> annotation_item 5 5 (JList [])])
   \<and> bind (upload_annotation py 5 ''a1'' (session_with gallery_text Map.empty) ''p1'' ''img1''
            ''user1'' (JList []) (JDict []))
       (\<lambda>(uid1, g1).
          upload_annotation py 7 ''a2'' g1 ''p1'' ''img1'' ''user1'' (JList [ann_box]) (JDict []))
     = Inl IndexError"
  by (simp add: first_upload_of_nothing upload_after_nothing bind_def)

subsection \<open>Image codec\<close>














end
